theory Spec2Isabelle
  imports Complex_Main "HOL-Library.Word" "HOL-Library.Sublist"
begin

section \<open>JavaScript strings\<close>

text \<open>
  A JavaScript string is a sequence of UTF-16 code units. String literals of the source are
  ASCII and are written through \<open>lit\<close>. \<open>trim\<close> is \<open>String.prototype.trim\<close>: it strips the
  code units that ECMAScript calls WhiteSpace or LineTerminator from both ends.
\<close>

type_synonym jsstring = "16 word list"

definition lit :: "string \<Rightarrow> jsstring" where
  "lit s = map of_char s"

definition is_whitespace :: "16 word \<Rightarrow> bool" where
  "is_whitespace c \<longleftrightarrow>
     c = 0x0009 \<or> c = 0x000A \<or> c = 0x000B \<or> c = 0x000C \<or> c = 0x000D \<or> c = 0x0020 \<or>
     c = 0x00A0 \<or> c = 0x1680 \<or> (0x2000 \<le> c \<and> c \<le> 0x200A) \<or> c = 0x2028 \<or> c = 0x2029 \<or>
     c = 0x202F \<or> c = 0x205F \<or> c = 0x3000 \<or> c = 0xFEFF"

definition trim :: "jsstring \<Rightarrow> jsstring" where
  "trim s = rev (dropWhile is_whitespace (rev (dropWhile is_whitespace s)))"

text \<open>\<open>Array.prototype.join\<close> on an array of strings.\<close>

fun join_strings :: "jsstring \<Rightarrow> jsstring list \<Rightarrow> jsstring" where
  "join_strings sep [] = []"
| "join_strings sep [x] = x"
| "join_strings sep (x # y # ys) = x @ sep @ join_strings sep (y # ys)"

section \<open>The data model (types.ts)\<close>

record NoteSection =
  heading :: jsstring
  content :: jsstring
  imagePrompt :: jsstring
  imageUrl :: "jsstring option"

type_synonym LearningNotes = "NoteSection list"

record QuizQuestion =
  question :: jsstring
  options :: "jsstring list"
  correctAnswer :: jsstring
  explanation :: jsstring

type_synonym Quiz = "QuizQuestion list"

section \<open>Values produced by JSON.parse\<close>

text \<open>
  The generation client casts what \<open>JSON.parse\<close> returns to its declared result type
  (\<open>as NoteSection[]\<close>, \<open>as Quiz\<close>). The cast is erased at run time, so the client's results
  are modelled as the JSON values they are. An object is the list of its own properties;
  \<open>map_of\<close> reads a property, \<open>None\<close> standing for \<open>undefined\<close>.
\<close>

datatype json =
    JNull
  | JBool bool
  | JNum rat
  | JStr jsstring
  | JArr "json list"
  | JObj "(jsstring \<times> json) list"

text \<open>
  ToBoolean, as the \<open>!\<close> operator applies it. A number is the value of the double that
  \<open>JSON.parse\<close> produced, which is never NaN.
\<close>

fun truthy :: "json option \<Rightarrow> bool" where
  "truthy None = False"
| "truthy (Some JNull) = False"
| "truthy (Some (JBool b)) = b"
| "truthy (Some (JNum n)) = (n \<noteq> 0)"
| "truthy (Some (JStr s)) = (s \<noteq> [])"
| "truthy (Some (JArr xs)) = True"
| "truthy (Some (JObj kvs)) = True"

text \<open>
  What a \<open>try\<close> block of the client can throw: an \<open>Error\<close> made by the source itself, a
  TypeError of the engine (a property read on \<open>null\<close> or \<open>undefined\<close>), the SyntaxError of
  \<open>JSON.parse\<close>, or the rejection of a remote call. What leaves an exported function is always
  an \<open>Error\<close> with a message.
\<close>

datatype js_error = Error jsstring

datatype thrown = Threw js_error | TypeError | SyntaxError | Rejected

text \<open>
  The read \<open>x.question\<close> of line 124: a TypeError on \<open>null\<close>, the own property of an
  object, and \<open>undefined\<close> on a boolean, a number, a string or an array, none of which has a
  property of that name.
\<close>

fun read_question :: "json \<Rightarrow> thrown + json option" where
  "read_question JNull = Inl TypeError"
| "read_question (JObj kvs) = Inr (map_of kvs (lit ''question''))"
| "read_question (JBool b) = Inr None"
| "read_question (JNum n) = Inr None"
| "read_question (JStr s) = Inr None"
| "read_question (JArr xs) = Inr None"

section \<open>The generation client (services/geminiService.ts)\<close>

subsection \<open>Schemas and requests\<close>

datatype schema =
    STRING "jsstring option"
  | ARRAY schema "jsstring option"
  | OBJECT "(jsstring \<times> schema) list" "jsstring list"

definition notesSchema :: schema where
  "notesSchema = ARRAY (OBJECT
     [(lit ''heading'', STRING (Some (lit
         ''A concise, descriptive title for this section of the notes.''))),
      (lit ''content'', STRING (Some (lit
         ''The detailed notes for this section, written in clear, well-structured paragraphs. Aim for 2-4 paragraphs.''))),
      (lit ''imagePrompt'', STRING (Some (lit
         ''A short, descriptive prompt for an image generation model to create a relevant visual for this section. The prompt should focus on key concepts and be suitable for a clean, vector-style educational illustration.'')))]
     [lit ''heading'', lit ''content'', lit ''imagePrompt'']) None"

definition quizSchema :: schema where
  "quizSchema = ARRAY (OBJECT
     [(lit ''question'', STRING (Some (lit
         ''The quiz question, testing a key concept from the notes.''))),
      (lit ''options'', ARRAY (STRING None) (Some (lit
         ''An array of 4 distinct multiple-choice options.''))),
      (lit ''correctAnswer'', STRING (Some (lit
         ''The correct answer from the provided options array.''))),
      (lit ''explanation'', STRING (Some (lit
         ''A brief and clear explanation for why the answer is correct, reinforcing the learning concept.'')))]
     [lit ''question'', lit ''options'', lit ''correctAnswer'', lit ''explanation'']) None"

datatype content_request =
  ContentRequest (model: jsstring) (contents: jsstring)
    (responseMimeType: jsstring) (responseSchema: schema)

datatype images_request =
  ImagesRequest (image_model: jsstring) (prompt: jsstring)
    (numberOfImages: nat) (outputMimeType: jsstring) (aspectRatio: jsstring)

text \<open>
  The response of \<open>ai.models.generateImages\<close>, with the optional fields the SDK declares:
  \<open>generatedImages?\<close>, \<open>image?\<close>, \<open>imageBytes?\<close>.
\<close>

datatype image_data = Image (imageBytes: "jsstring option")

datatype generated_image = GeneratedImage (image_of: "image_data option")

datatype images_response = ImagesResponse (generatedImages: "generated_image list option")

text \<open>
  The remote service and \<open>JSON.parse\<close> are parameters of the model:
  \<^item> \<open>generateContent req\<close> is \<open>Inl e\<close> when the awaited call rejects, and \<open>Inr t\<close> when it
    resolves to a response whose \<open>text\<close> is \<open>t\<close> (\<open>None\<close> when it is \<open>undefined\<close>);
  \<^item> \<open>generateImages req\<close> likewise, resolving to an \<open>images_response\<close>;
  \<^item> \<open>parse s\<close> is \<open>None\<close> when \<open>JSON.parse\<close> throws its SyntaxError.
\<close>

type_synonym content_service = "content_request \<Rightarrow> thrown + jsstring option"
type_synonym images_service = "images_request \<Rightarrow> thrown + images_response"
type_synonym json_parser = "jsstring \<Rightarrow> json option"

subsection \<open>generateNotes\<close>

definition notes_prompt :: "jsstring \<Rightarrow> jsstring" where
  \<open>notes_prompt topic =
     lit ''You are an expert educator. Create a detailed, comprehensive set of learning notes on the topic of "''
     @ topic @
     lit ''". Structure your response as a valid JSON array, strictly following the provided schema. Each object in the array represents a distinct section of the notes. Ensure the content is informative, well-organized, and suitable for someone new to the topic.''\<close>

definition notes_failed :: jsstring where
  "notes_failed = lit ''Failed to generate notes. Please check the topic and try again.''"

text \<open>The body of the \<open>try\<close> block, lines 64 to 75.\<close>

definition generateNotes_try :: "content_service \<Rightarrow> json_parser \<Rightarrow> jsstring \<Rightarrow> thrown + json" where
  "generateNotes_try generateContent parse topic =
     (case generateContent (ContentRequest (lit ''gemini-2.5-flash'') (notes_prompt topic)
                              (lit ''application/json'') notesSchema) of
        Inl e \<Rightarrow> Inl e
      | Inr None \<Rightarrow> Inl TypeError
      | Inr (Some txt) \<Rightarrow>
          (case parse (trim txt) of
             None \<Rightarrow> Inl SyntaxError
           | Some parsedNotes \<Rightarrow> Inr parsedNotes))"

definition generateNotes :: "content_service \<Rightarrow> json_parser \<Rightarrow> jsstring \<Rightarrow> js_error + json" where
  "generateNotes generateContent parse topic =
     (case generateNotes_try generateContent parse topic of
        Inl e \<Rightarrow> Inl (Error notes_failed)
      | Inr parsedNotes \<Rightarrow> Inr parsedNotes)"

subsection \<open>generateImage\<close>

definition placeholder_url :: jsstring where
  "placeholder_url = lit ''https://picsum.photos/1280/720''"

definition data_uri_prefix :: jsstring where
  "data_uri_prefix = lit ''data:image/jpeg;base64,''"

text \<open>
  The body of the \<open>try\<close> block, lines 84 to 95. Indexing \<open>undefined\<close>, or reading a property
  of the \<open>undefined\<close> that an empty array gives at index 0, is a TypeError; an \<open>undefined\<close>
  \<open>imageBytes\<close> is spliced into the template as the text \<open>undefined\<close>.
\<close>

definition generateImage_try :: "images_service \<Rightarrow> jsstring \<Rightarrow> thrown + jsstring" where
  "generateImage_try generateImages p =
     (case generateImages (ImagesRequest (lit ''imagen-3.0-generate-002'')
              (lit ''Educational illustration, clean, minimalist vector style, vibrant colors. '' @ p)
              1 (lit ''image/jpeg'') (lit ''16:9'')) of
        Inl e \<Rightarrow> Inl e
      | Inr response \<Rightarrow>
          (case generatedImages response of
             None \<Rightarrow> Inl TypeError
           | Some [] \<Rightarrow> Inl TypeError
           | Some (g # gs) \<Rightarrow>
               (case image_of g of
                  None \<Rightarrow> Inl TypeError
                | Some img \<Rightarrow>
                    Inr (data_uri_prefix @
                      (case imageBytes img of
                         None \<Rightarrow> lit ''undefined''
                       | Some base64ImageBytes \<Rightarrow> base64ImageBytes)))))"

definition generateImage :: "images_service \<Rightarrow> jsstring \<Rightarrow> js_error + jsstring" where
  "generateImage generateImages p =
     (case generateImage_try generateImages p of
        Inl e \<Rightarrow> Inr placeholder_url
      | Inr url \<Rightarrow> Inr url)"

subsection \<open>generateQuiz\<close>

definition notesContent :: "LearningNotes \<Rightarrow> jsstring" where
  "notesContent notes =
     join_strings (lit [CHR 0x0A, CHR 0x0A])
       (map (\<lambda>note. lit ''## '' @ heading note @ lit [CHR 0x0A] @ content note) notes)"

definition quiz_prompt :: "jsstring \<Rightarrow> LearningNotes \<Rightarrow> jsstring" where
  \<open>quiz_prompt topic notes =
     lit ''You are a quiz master. Based on the following notes about "''
     @ topic @
     lit ''", create a 10-question multiple-choice quiz to test understanding. For each question, provide the question, 4 plausible options, the correct answer, and a brief explanation for the correct answer. Ensure the questions cover diverse key concepts from the notes. Structure your response as a valid JSON array, strictly following the provided schema.''
     @ lit [CHR 0x0A, CHR 0x0A]
     @ lit ''    Here are the notes:'' @ lit [CHR 0x0A]
     @ lit ''    ---'' @ lit [CHR 0x0A]
     @ lit ''    '' @ notesContent notes @ lit [CHR 0x0A]
     @ lit ''    ---'' @ lit [CHR 0x0A]
     @ lit ''    ''\<close>

definition invalid_quiz_data :: jsstring where
  "invalid_quiz_data = lit ''Received invalid quiz data from API.''"

definition quiz_failed :: jsstring where
  "quiz_failed = lit ''Failed to generate a quiz for this topic. Please try again.''"

text \<open>
  The condition of line 124,
  \<open>!Array.isArray(parsedQuiz) || parsedQuiz.length === 0 || !parsedQuiz[0].question\<close>,
  evaluated left to right; the last disjunct can throw.
\<close>

definition quiz_rejected :: "json \<Rightarrow> thrown + bool" where
  "quiz_rejected parsedQuiz =
     (case parsedQuiz of
        JArr [] \<Rightarrow> Inr True
      | JArr (first # rest) \<Rightarrow>
          (case read_question first of
             Inl e \<Rightarrow> Inl e
           | Inr q \<Rightarrow> Inr (\<not> truthy q))
      | _ \<Rightarrow> Inr True)"

text \<open>The body of the \<open>try\<close> block, lines 113 to 127, with the \<open>throw\<close> of line 125 inside it.\<close>

definition generateQuiz_try ::
  "content_service \<Rightarrow> json_parser \<Rightarrow> jsstring \<Rightarrow> LearningNotes \<Rightarrow> thrown + json" where
  "generateQuiz_try generateContent parse topic notes =
     (case generateContent (ContentRequest (lit ''gemini-2.5-flash'') (quiz_prompt topic notes)
                              (lit ''application/json'') quizSchema) of
        Inl e \<Rightarrow> Inl e
      | Inr None \<Rightarrow> Inl TypeError
      | Inr (Some txt) \<Rightarrow>
          (case parse (trim txt) of
             None \<Rightarrow> Inl SyntaxError
           | Some parsedQuiz \<Rightarrow>
               (case quiz_rejected parsedQuiz of
                  Inl e \<Rightarrow> Inl e
                | Inr True \<Rightarrow> Inl (Threw (Error invalid_quiz_data))
                | Inr False \<Rightarrow> Inr parsedQuiz)))"

text \<open>The \<open>catch\<close> of line 128 receives whatever the block threw and throws the generic error.\<close>

definition generateQuiz ::
  "content_service \<Rightarrow> json_parser \<Rightarrow> jsstring \<Rightarrow> LearningNotes \<Rightarrow> js_error + json" where
  "generateQuiz generateContent parse topic notes =
     (case generateQuiz_try generateContent parse topic notes of
        Inl e \<Rightarrow> Inl (Error quiz_failed)
      | Inr parsedQuiz \<Rightarrow> Inr parsedQuiz)"

section \<open>The topic input (components/TopicInput.tsx)\<close>

text \<open>
  \<open>handleSubmit\<close> on the text field's current value. The result is the argument passed to
  the \<open>onGenerate\<close> callback (\<open>None\<close> when it is not called) and the new value of the field.
  An empty string is the only falsy string.
\<close>

definition TopicInput_handleSubmit :: "bool \<Rightarrow> jsstring \<Rightarrow> jsstring option \<times> jsstring" where
  "TopicInput_handleSubmit isLoading topic =
     (if trim topic \<noteq> [] \<and> \<not> isLoading then (Some (trim topic), []) else (None, topic))"

section \<open>The notes view and its narration (components/NotesDisplay.tsx)\<close>

datatype PlaybackState = stopped | playing | paused

text \<open>
  A \<open>SpeechSynthesisUtterance\<close> as the effect of lines 73 to 108 builds it; \<open>section_index\<close> is
  the index its three event handlers close over. The voice type is left open.
\<close>

record 'v utterance =
  utext :: jsstring
  voice :: "'v option"
  pitch :: rat
  rate :: rat
  section_index :: nat

text \<open>The calls the component makes on the global \<open>speechSynthesis\<close>, in the order made.\<close>

datatype 'v speech_call = Cancel | Speak "'v utterance" | Pause | Resume

record 'v notes_display =
  playbackState :: PlaybackState
  speakingSectionIndex :: "nat option"
  utterancesRef :: "'v utterance list"
  selectedVoice :: "'v option"
  speech_calls :: "'v speech_call list"

definition make_utterance :: "'v option \<Rightarrow> nat \<Rightarrow> NoteSection \<Rightarrow> 'v utterance" where
  "make_utterance v index section =
     \<lparr>utext = heading section @ lit ''. '' @ content section,
      voice = v, pitch = 1, rate = 1, section_index = index\<rparr>"

definition build_utterances :: "'v option \<Rightarrow> LearningNotes \<Rightarrow> 'v utterance list" where
  "build_utterances v notes =
     map (\<lambda>(index, section). make_utterance v index section) (enumerate 0 notes)"

text \<open>
  The effect that runs when the notes or the selected voice change. \<open>busy\<close> is what
  \<open>speechSynthesis.speaking || speechSynthesis.pending\<close> reads at that moment. The component
  uses \<open>speechSynthesis\<close> unguarded from its first effect on, so the engine is taken to exist.
\<close>

definition notes_effect :: "bool \<Rightarrow> LearningNotes \<Rightarrow> 'v notes_display \<Rightarrow> 'v notes_display" where
  "notes_effect busy notes s =
     (if busy then s\<lparr>speech_calls := speech_calls s @ [Cancel]\<rparr> else s)
       \<lparr>playbackState := stopped, speakingSectionIndex := None,
        utterancesRef := build_utterances (selectedVoice s) notes\<rparr>"

definition handlePlay :: "'v notes_display \<Rightarrow> 'v notes_display" where
  "handlePlay s =
     (if utterancesRef s = [] then s
      else if playbackState s = paused then
        s\<lparr>speech_calls := speech_calls s @ [Resume], playbackState := playing\<rparr>
      else if playbackState s = stopped then
        s\<lparr>speech_calls := speech_calls s @ Cancel # map Speak (utterancesRef s),
          playbackState := playing\<rparr>
      else s)"

definition handlePause :: "'v notes_display \<Rightarrow> 'v notes_display" where
  "handlePause s =
     (if playbackState s = playing then
        s\<lparr>speech_calls := speech_calls s @ [Pause], playbackState := paused\<rparr>
      else s)"

definition handleStop :: "'v notes_display \<Rightarrow> 'v notes_display" where
  "handleStop s =
     s\<lparr>speech_calls := speech_calls s @ [Cancel], playbackState := stopped,
       speakingSectionIndex := None\<rparr>"

text \<open>
  The transport controls, the play button among them, are rendered only under the condition
  of line 138, \<open>notes.length > 0 && 'speechSynthesis' in window\<close>; the engine is taken to
  exist, as above.
\<close>

definition play_control_rendered :: "LearningNotes \<Rightarrow> bool" where
  "play_control_rendered notes \<longleftrightarrow> length notes > 0"

text \<open>
  The utterance queue of the browser after a sequence of calls, started from the queue \<open>q\<close>:
  \<open>speak\<close> appends, \<open>cancel\<close> empties, \<open>pause\<close> and \<open>resume\<close> leave the queue as it is.
\<close>

fun speech_queue :: "'v utterance list \<Rightarrow> 'v speech_call list \<Rightarrow> 'v utterance list" where
  "speech_queue q [] = q"
| "speech_queue q (Cancel # cs) = speech_queue [] cs"
| "speech_queue q (Speak u # cs) = speech_queue (q @ [u]) cs"
| "speech_queue q (Pause # cs) = speech_queue q cs"
| "speech_queue q (Resume # cs) = speech_queue q cs"

section \<open>The quiz view (components/QuizDisplay.tsx)\<close>

text \<open>
  The component state. Indices are JavaScript numbers that only take integer values; the
  answers are a \<open>Record<number, string>\<close>.
\<close>

record quiz_display =
  currentQuestionIndex :: int
  answers :: "int \<rightharpoonup> jsstring"
  showResults :: bool

definition quiz_display_init :: quiz_display where
  "quiz_display_init = \<lparr>currentQuestionIndex = 0, answers = Map.empty, showResults = False\<rparr>"

definition totalQuestions :: "Quiz \<Rightarrow> int" where
  "totalQuestions quiz = int (length quiz)"

definition handleAnswerSelect :: "jsstring \<Rightarrow> quiz_display \<Rightarrow> quiz_display" where
  "handleAnswerSelect option s = s\<lparr>answers := (answers s)(currentQuestionIndex s \<mapsto> option)\<rparr>"

definition handleNext :: "Quiz \<Rightarrow> quiz_display \<Rightarrow> quiz_display" where
  "handleNext quiz s =
     (if currentQuestionIndex s < totalQuestions quiz - 1
      then s\<lparr>currentQuestionIndex := currentQuestionIndex s + 1\<rparr> else s)"

definition handlePrev :: "quiz_display \<Rightarrow> quiz_display" where
  "handlePrev s =
     (if currentQuestionIndex s > 0
      then s\<lparr>currentQuestionIndex := currentQuestionIndex s - 1\<rparr> else s)"

definition QuizDisplay_handleSubmit :: "quiz_display \<Rightarrow> quiz_display" where
  "QuizDisplay_handleSubmit s = s\<lparr>showResults := True\<rparr>"

definition handleRetake :: "quiz_display \<Rightarrow> quiz_display" where
  "handleRetake s = s\<lparr>answers := Map.empty, currentQuestionIndex := 0, showResults := False\<rparr>"

text \<open>
  One handler call per user event, each on the state the previous one left: React renders
  between two clicks, so a handler never sees a stale index.
\<close>

datatype quiz_event = Select jsstring | Next | Prev | Submit | Retake

fun quiz_step :: "Quiz \<Rightarrow> quiz_display \<Rightarrow> quiz_event \<Rightarrow> quiz_display" where
  "quiz_step quiz s (Select option) = handleAnswerSelect option s"
| "quiz_step quiz s Next = handleNext quiz s"
| "quiz_step quiz s Prev = handlePrev s"
| "quiz_step quiz s Submit = QuizDisplay_handleSubmit s"
| "quiz_step quiz s Retake = handleRetake s"

definition quiz_run :: "Quiz \<Rightarrow> quiz_event list \<Rightarrow> quiz_display" where
  "quiz_run quiz events = foldl (quiz_step quiz) quiz_display_init events"

text \<open>
  The \<open>reduce\<close> of lines 47 to 49, with its running index and total \<open>tot\<close>; \<open>recorded\<close> is the
  \<open>answers\<close> of the state. A missing answer reads
  as \<open>undefined\<close>, which is not strictly equal to any string.
\<close>

fun reduce_score :: "(int \<rightharpoonup> jsstring) \<Rightarrow> int \<Rightarrow> nat \<Rightarrow> Quiz \<Rightarrow> nat" where
  "reduce_score recorded index tot [] = tot"
| "reduce_score recorded index tot (q # rest) =
     reduce_score recorded (index + 1)
       (if recorded index = Some (correctAnswer q) then tot + 1 else tot) rest"

definition score :: "Quiz \<Rightarrow> (int \<rightharpoonup> jsstring) \<Rightarrow> nat" where
  "score quiz recorded = reduce_score recorded 0 0 quiz"

text \<open>
  \<open>scorePercentage\<close> is the result of \<open>Math.round\<close>: an integer, or NaN (for \<open>0 / 0\<close>, the
  empty quiz). Every comparison with NaN is false.
\<close>

datatype percentage = NaN | Percent int

fun exceeds :: "percentage \<Rightarrow> int \<Rightarrow> bool" where
  "exceeds NaN k = False"
| "exceeds (Percent p) k = (p > k)"

record feedback =
  message :: jsstring
  color :: jsstring

definition feedback_of :: "percentage \<Rightarrow> feedback" where
  "feedback_of scorePercentage =
     (if exceeds scorePercentage 80 then
        \<lparr>message = lit ''Excellent work!'', color = lit ''text-green-400''\<rparr>
      else if exceeds scorePercentage 50 then
        \<lparr>message = lit ''Good job!'', color = lit ''text-blue-400''\<rparr>
      else \<lparr>message = lit ''Great effort!'', color = lit ''text-yellow-400''\<rparr>)"

text \<open>
  The feedback of the results view. \<open>Math.round((score / totalQuestions) * 100)\<close> is double
  arithmetic and is not interpreted: \<open>round_percent score total\<close> stands for its value.
\<close>

definition results_feedback ::
  "(nat \<Rightarrow> nat \<Rightarrow> percentage) \<Rightarrow> Quiz \<Rightarrow> (int \<rightharpoonup> jsstring) \<Rightarrow> feedback" where
  "results_feedback round_percent quiz recorded =
     feedback_of (round_percent (score quiz recorded) (length quiz))"

section \<open>The application shell (App.tsx)\<close>

datatype QuizState = idle | generating | active

text \<open>
  The state of \<open>App\<close>. The quiz is stored as \<open>generateQuiz\<close> delivers it, so its type is left
  open.
\<close>

record 'q app =
  "notes" :: "LearningNotes option"
  isLoading :: bool
  loadingMessage :: jsstring
  error :: "jsstring option"
  topic :: jsstring
  quiz :: "'q option"
  quizState :: QuizState
  quizError :: "jsstring option"

text \<open>\<open>e.message || d\<close>.\<close>

fun message_or :: "js_error \<Rightarrow> jsstring \<Rightarrow> jsstring" where
  "message_or (Error m) d = (if m = [] then d else m)"

text \<open>
  An asynchronous handler is split at its \<open>await\<close>: what it does before, and what it does
  when the awaited call has settled with result \<open>r\<close> (on the state of that moment). The
  handler run without interruption is the composition of the two.
\<close>

definition handleStartQuiz_begin :: "'q app \<Rightarrow> 'q app" where
  "handleStartQuiz_begin s = s\<lparr>quizState := generating, quizError := None\<rparr>"

definition handleStartQuiz_settle :: "js_error + 'q \<Rightarrow> 'q app \<Rightarrow> 'q app" where
  "handleStartQuiz_settle r s =
     (case r of
        Inr quizData \<Rightarrow> s\<lparr>quiz := Some quizData, quizState := active\<rparr>
      | Inl e \<Rightarrow> s\<lparr>quizError := Some (message_or e (lit ''Could not generate the quiz.'')),
                    quizState := idle\<rparr>)"

definition handleStartQuiz ::
  "(jsstring \<Rightarrow> LearningNotes \<Rightarrow> js_error + 'q) \<Rightarrow> 'q app \<Rightarrow> 'q app" where
  "handleStartQuiz generate_quiz s =
     (case notes s of
        None \<Rightarrow> s
      | Some ns \<Rightarrow> handleStartQuiz_settle (generate_quiz (topic s) ns) (handleStartQuiz_begin s))"

text \<open>
  \<open>handleGenerate\<close>, on the declared type of \<open>generateNotes\<close>. \<open>Promise.all\<close> over the mapped
  sections rejects as soon as one image call rejects, and otherwise gives the sections in
  order, each with its \<open>imageUrl\<close>. The second status message is shown between the two awaits
  and is gone when the \<open>finally\<close> block has run.
\<close>

definition handleGenerate_begin :: "jsstring \<Rightarrow> 'q app \<Rightarrow> 'q app" where
  "handleGenerate_begin inputTopic s =
     s\<lparr>isLoading := True, error := None, notes := None, topic := inputTopic, quiz := None,
       quizState := idle, quizError := None,
       loadingMessage := lit ''Crafting your learning materials...''\<rparr>"

fun illustrate :: "(jsstring \<Rightarrow> js_error + jsstring) \<Rightarrow> LearningNotes \<Rightarrow> js_error + LearningNotes" where
  "illustrate generate_image [] = Inr []"
| "illustrate generate_image (note # rest) =
     (case generate_image (imagePrompt note) of
        Inl e \<Rightarrow> Inl e
      | Inr url \<Rightarrow>
          (case illustrate generate_image rest of
             Inl e \<Rightarrow> Inl e
           | Inr rest' \<Rightarrow> Inr (note\<lparr>imageUrl := Some url\<rparr> # rest')))"

definition handleGenerate_try ::
  "(jsstring \<Rightarrow> js_error + LearningNotes) \<Rightarrow> (jsstring \<Rightarrow> js_error + jsstring) \<Rightarrow> jsstring
     \<Rightarrow> js_error + LearningNotes" where
  "handleGenerate_try generate_notes generate_image inputTopic =
     (case generate_notes inputTopic of
        Inl e \<Rightarrow> Inl e
      | Inr structuredNotes \<Rightarrow>
          if length structuredNotes = 0 then
            Inl (Error (lit ''Could not generate notes for this topic. Please try a different one.''))
          else illustrate generate_image structuredNotes)"

definition handleGenerate_settle :: "js_error + LearningNotes \<Rightarrow> 'q app \<Rightarrow> 'q app" where
  "handleGenerate_settle r s =
     (case r of
        Inr notesWithImages \<Rightarrow> s\<lparr>notes := Some notesWithImages\<rparr>
      | Inl e \<Rightarrow> s\<lparr>error := Some (message_or e (lit ''An unknown error occurred.''))\<rparr>)
       \<lparr>isLoading := False, loadingMessage := []\<rparr>"

definition handleGenerate ::
  "(jsstring \<Rightarrow> js_error + LearningNotes) \<Rightarrow> (jsstring \<Rightarrow> js_error + jsstring) \<Rightarrow> jsstring
     \<Rightarrow> 'q app \<Rightarrow> 'q app" where
  "handleGenerate generate_notes generate_image inputTopic s =
     handleGenerate_settle (handleGenerate_try generate_notes generate_image inputTopic)
       (handleGenerate_begin inputTopic s)"

text \<open>
  \<open>App\<close> mounts the topic input only under the condition of line 111,
  \<open>!notes && !isLoading\<close>, and passes it its own \<open>isLoading\<close> as the property of that name.
\<close>

definition TopicInput_mounted :: "'q app \<Rightarrow> bool" where
  "TopicInput_mounted s \<longleftrightarrow> notes s = None \<and> \<not> isLoading s"

section \<open>Initial state and canned services for the examples\<close>

text \<open>The initial values of the \<open>useState\<close> calls of \<open>App\<close>.\<close>

definition App_init :: "'q app" where
  "App_init = \<lparr>notes = None, isLoading = False, loadingMessage = [], error = None,
                topic = [], quiz = None, quizState = idle, quizError = None\<rparr>"

text \<open>
  A text service that answers every request with the same text, an image service whose call
  rejects, and one that delivers one image with the given bytes. In the examples the parser
  is a table, \<open>map_of\<close> of pairs of a text and the value \<open>JSON.parse\<close> gives for it.
\<close>

definition respond_with :: "jsstring \<Rightarrow> content_service" where
  "respond_with txt request = Inr (Some txt)"

definition reject_images :: images_service where
  "reject_images request = Inl Rejected"

definition respond_images :: "jsstring \<Rightarrow> images_service" where
  "respond_images bytes request =
     Inr (ImagesResponse (Some [GeneratedImage (Some (Image (Some bytes)))]))"

text \<open>The initial values of the state of \<open>NotesDisplay\<close>, with no call made yet.\<close>

definition NotesDisplay_init :: "'v notes_display" where
  "NotesDisplay_init = \<lparr>playbackState = stopped, speakingSectionIndex = None,
                         utterancesRef = [], selectedVoice = None, speech_calls = []\<rparr>"

text \<open>Two sections and a quiz of two questions, for the examples.\<close>

definition sample_notes :: LearningNotes where
  "sample_notes =
     [\<lparr>heading = lit ''Light'', content = lit ''Plants use light.'',
       imagePrompt = lit ''a leaf'', imageUrl = Some placeholder_url\<rparr>,
      \<lparr>heading = lit ''Water'', content = lit ''Roots take up water.'',
       imagePrompt = lit ''a root'', imageUrl = Some placeholder_url\<rparr>]"

definition sample_quiz :: Quiz where
  "sample_quiz =
     [\<lparr>question = lit ''Q1'', options = [lit ''A'', lit ''B'', lit ''C'', lit ''D''],
       correctAnswer = lit ''A'', explanation = lit ''E1''\<rparr>,
      \<lparr>question = lit ''Q2'', options = [lit ''A'', lit ''B'', lit ''C'', lit ''D''],
       correctAnswer = lit ''B'', explanation = lit ''E2''\<rparr>]"

section \<open>Properties of trim\<close>

lemma strip_back: "xs = rev (dropWhile P (rev xs)) @ rev (takeWhile P (rev xs))"
proof -
  have "rev (dropWhile P (rev xs)) @ rev (takeWhile P (rev xs))
        = rev (takeWhile P (rev xs) @ dropWhile P (rev xs))"
    by (simp only: rev_append)
  also have "\<dots> = rev (rev xs)" by (simp only: takeWhile_dropWhile_id)
  finally show ?thesis by simp
qed

lemma trim_decomposition:
  "\<exists>a b. s = a @ trim s @ b \<and> list_all is_whitespace a \<and> list_all is_whitespace b"
proof -
  define d where "d = dropWhile is_whitespace s"
  define a where "a = takeWhile is_whitespace s"
  define b where "b = rev (takeWhile is_whitespace (rev d))"
  have s: "s = a @ d" by (simp add: a_def d_def)
  have d: "d = trim s @ b"
    unfolding trim_def b_def d_def by (rule strip_back)
  have wa: "list_all is_whitespace a"
    unfolding a_def list_all_iff by (auto dest: set_takeWhileD)
  have wb: "list_all is_whitespace b"
    unfolding b_def list_all_iff by (auto dest: set_takeWhileD)
  from s d wa wb show ?thesis by auto
qed

lemma trim_ends:
  assumes "trim s \<noteq> []"
  shows "\<not> is_whitespace (hd (trim s)) \<and> \<not> is_whitespace (last (trim s))"
proof -
  define d where "d = dropWhile is_whitespace s"
  have t: "trim s = rev (dropWhile is_whitespace (rev d))" by (simp add: trim_def d_def)
  from assms t have ne: "dropWhile is_whitespace (rev d) \<noteq> []" by simp
  then have l: "\<not> is_whitespace (last (trim s))"
    by (simp add: t last_rev hd_dropWhile)
  have dd: "d = trim s @ rev (takeWhile is_whitespace (rev d))"
    unfolding t by (rule strip_back)
  with assms have "hd d = hd (trim s)" by (metis hd_append2)
  moreover from dd assms have "d \<noteq> []" by auto
  then have "\<not> is_whitespace (hd d)" unfolding d_def by (rule hd_dropWhile)
  ultimately show ?thesis using l by simp
qed

lemma trim_empty_iff: "trim s = [] \<longleftrightarrow> list_all is_whitespace s"
proof
  assume "trim s = []"
  then have a: "\<forall>x\<in>set (dropWhile is_whitespace s). is_whitespace x"
    by (simp add: trim_def)
  have "dropWhile is_whitespace s = []"
  proof (rule ccontr)
    assume n: "dropWhile is_whitespace s \<noteq> []"
    then have "\<not> is_whitespace (hd (dropWhile is_whitespace s))" by (rule hd_dropWhile)
    moreover from n have "hd (dropWhile is_whitespace s) \<in> set (dropWhile is_whitespace s)"
      by simp
    ultimately show False using a by blast
  qed
  then show "list_all is_whitespace s" by (simp add: list_all_iff)
next
  assume "list_all is_whitespace s"
  then have e: "dropWhile is_whitespace s = []" by (simp add: list_all_iff)
  show "trim s = []" unfolding trim_def e by simp
qed

section \<open>The generation client: results and errors\<close>

lemma truthy_Some: "truthy q \<Longrightarrow> \<exists>v. q = Some v"
  by (cases q) auto

lemma read_question_truthy:
  "read_question x = Inr q \<Longrightarrow> truthy q \<Longrightarrow>
     \<exists>kvs v. x = JObj kvs \<and> map_of kvs (lit ''question'') = Some v \<and> q = Some v"
  by (cases x) (auto dest: truthy_Some)

lemma generateQuiz_error_generic:
  "generateQuiz gc parse t ns = Inl e \<Longrightarrow> e = Error quiz_failed"
  by (auto simp: generateQuiz_def split: sum.splits)

lemma generateQuiz_Inr_iff:
  "generateQuiz gc parse t ns = Inr v \<longleftrightarrow>
     (\<exists>txt first rest q.
        gc (ContentRequest (lit ''gemini-2.5-flash'') (quiz_prompt t ns)
              (lit ''application/json'') quizSchema) = Inr (Some txt) \<and>
        parse (trim txt) = Some v \<and> v = JArr (first # rest) \<and>
        read_question first = Inr q \<and> truthy q)"
  by (auto simp: generateQuiz_def generateQuiz_try_def quiz_rejected_def
           split: sum.splits option.splits json.splits list.splits bool.splits)

lemma trim_brackets: "trim (lit ''[]'') = lit ''[]''"
  by (simp add: trim_def lit_def is_whitespace_def)

lemma trim_empty_object_array: "trim (lit ''[{}]'') = lit ''[{}]''"
  by (simp add: trim_def lit_def is_whitespace_def)

lemma quiz_messages_differ: "quiz_failed \<noteq> invalid_quiz_data"
  by (simp add: quiz_failed_def invalid_quiz_data_def lit_def)

text \<open>
  Claim C1 says that \<open>generateQuiz\<close> raises the "invalid quiz data" error when the parsed
  result is an empty array or its first element has no \<open>question\<close>, and that the caller can
  tell it from the generic "failed to generate quiz" error. The code does not do so: the
  \<open>throw\<close> of line 125 stands inside the \<open>try\<close> block whose \<open>catch\<close> replaces every error
  by the generic one. For the responses \<open>[]\<close> and \<open>[{}]\<close> the block throws the "invalid
  quiz data" error, and \<open>generateQuiz\<close> raises the generic error, which is a different one.
  By \<open>generateQuiz_error_generic\<close> no input makes \<open>generateQuiz\<close> raise anything else.
\<close>

theorem generateQuiz_invalid_data_reported_generic:
  "generateQuiz_try (respond_with (lit ''[]'')) (map_of [(lit ''[]'', JArr [])])
       (lit ''Photosynthesis'') sample_notes = Inl (Threw (Error invalid_quiz_data))
   \<and> generateQuiz (respond_with (lit ''[]'')) (map_of [(lit ''[]'', JArr [])])
       (lit ''Photosynthesis'') sample_notes = Inl (Error quiz_failed)
   \<and> generateQuiz_try (respond_with (lit ''[{}]'')) (map_of [(lit ''[{}]'', JArr [JObj []])])
       (lit ''Photosynthesis'') sample_notes = Inl (Threw (Error invalid_quiz_data))
   \<and> generateQuiz (respond_with (lit ''[{}]'')) (map_of [(lit ''[{}]'', JArr [JObj []])])
       (lit ''Photosynthesis'') sample_notes = Inl (Error quiz_failed)
   \<and> Error quiz_failed \<noteq> Error invalid_quiz_data"
  by (simp add: generateQuiz_def generateQuiz_try_def respond_with_def quiz_rejected_def
        trim_brackets trim_empty_object_array quiz_messages_differ)

subsection \<open>generateNotes and its caller\<close>

lemma generateNotes_error_generic:
  "generateNotes gc parse t = Inl e \<Longrightarrow> e = Error notes_failed"
  by (auto simp: generateNotes_def split: sum.splits)

lemma generateNotes_Inr_iff:
  "generateNotes gc parse t = Inr v \<longleftrightarrow>
     (\<exists>txt. gc (ContentRequest (lit ''gemini-2.5-flash'') (notes_prompt t)
                  (lit ''application/json'') notesSchema) = Inr (Some txt) \<and>
            parse (trim txt) = Some v)"
  by (auto simp: generateNotes_def generateNotes_try_def split: sum.splits option.splits)

lemma illustrate_length:
  "illustrate gi ns = Inr ms \<Longrightarrow> length ms = length ns"
  by (induction ns arbitrary: ms) (auto split: sum.splits)

lemma handleGenerate_notes:
  "notes (handleGenerate gn gi t s) =
     (case handleGenerate_try gn gi t of Inl e \<Rightarrow> None | Inr ms \<Rightarrow> Some ms)"
  by (simp add: handleGenerate_def handleGenerate_settle_def handleGenerate_begin_def
           split: sum.splits)

lemma handleGenerate_try_nonempty:
  "handleGenerate_try gn gi t = Inr ms \<Longrightarrow> ms \<noteq> []"
  by (auto simp: handleGenerate_try_def split: sum.splits if_splits dest: illustrate_length)

lemma handleGenerate_empty:
  "gn t = Inr [] \<Longrightarrow>
     handleGenerate_try gn gi t =
       Inl (Error (lit ''Could not generate notes for this topic. Please try a different one.''))"
  by (simp add: handleGenerate_try_def)

lemma handleGenerate_error:
  "error (handleGenerate gn gi t s) =
     (case handleGenerate_try gn gi t of
        Inl e \<Rightarrow> Some (message_or e (lit ''An unknown error occurred.''))
      | Inr ms \<Rightarrow> None)"
  by (simp add: handleGenerate_def handleGenerate_settle_def handleGenerate_begin_def
           split: sum.splits)

lemma could_not_nonempty:
  "lit ''Could not generate notes for this topic. Please try a different one.'' \<noteq> []"
  by (simp add: lit_def)

lemma trim_blank_sections:
  \<open>trim (lit ''[{"heading":"","content":"","imagePrompt":""}]'')
     = lit ''[{"heading":"","content":"","imagePrompt":""}]''\<close>
  by (simp add: trim_def lit_def is_whitespace_def)

text \<open>
  Claim C2 says that a successful \<open>generateNotes\<close> returns a non-empty sequence of sections
  whose headings, contents and image prompts are non-empty. It fails: when the response is
  the text \<open>[]\<close> the call succeeds with the empty array, and a response with one section
  whose three fields are empty strings is returned as it is.
\<close>

theorem generateNotes_unvalidated_counterexample:
  \<open>generateNotes (respond_with (lit ''[]'')) (map_of [(lit ''[]'', JArr [])])
       (lit ''Photosynthesis'') = Inr (JArr [])
   \<and> generateNotes (respond_with (lit ''[{"heading":"","content":"","imagePrompt":""}]''))
       (map_of [(lit ''[{"heading":"","content":"","imagePrompt":""}]'',
                 JArr [JObj [(lit ''heading'', JStr []), (lit ''content'', JStr []),
                             (lit ''imagePrompt'', JStr [])]])])
       (lit ''Photosynthesis'')
     = Inr (JArr [JObj [(lit ''heading'', JStr []), (lit ''content'', JStr []),
                        (lit ''imagePrompt'', JStr [])]])\<close>
  by (simp add: generateNotes_def generateNotes_try_def respond_with_def trim_brackets
        trim_blank_sections)

text \<open>
  Claim C2, as amended. \<open>generateNotes\<close> succeeds exactly when the remote call delivers a
  text that \<open>JSON.parse\<close> accepts once trimmed, and its result is the parsed value,
  unchecked. The empty sequence is refused one level up: \<open>handleGenerate\<close> stores notes only
  when they are non-empty, and for an empty result it stores none and records the error
  "Could not generate notes for this topic. Please try a different one.".
\<close>

theorem generateNotes_returns_parsed_value:
  "(generateNotes gc parse t = Inr v \<longleftrightarrow>
      (\<exists>txt. gc (ContentRequest (lit ''gemini-2.5-flash'') (notes_prompt t)
                   (lit ''application/json'') notesSchema) = Inr (Some txt) \<and>
             parse (trim txt) = Some v))
   \<and> (\<forall>ms. notes (handleGenerate gn gi t s) = Some ms \<longrightarrow> ms \<noteq> [])
   \<and> (gn t = Inr [] \<longrightarrow>
        notes (handleGenerate gn gi t s) = None \<and>
        error (handleGenerate gn gi t s) =
          Some (lit ''Could not generate notes for this topic. Please try a different one.''))"
proof (intro conjI allI impI)
  show "generateNotes gc parse t = Inr v \<longleftrightarrow>
      (\<exists>txt. gc (ContentRequest (lit ''gemini-2.5-flash'') (notes_prompt t)
                   (lit ''application/json'') notesSchema) = Inr (Some txt) \<and>
             parse (trim txt) = Some v)"
    by (rule generateNotes_Inr_iff)
next
  fix ms assume "notes (handleGenerate gn gi t s) = Some ms"
  then have "handleGenerate_try gn gi t = Inr ms"
    by (simp add: handleGenerate_notes split: sum.splits)
  then show "ms \<noteq> []" by (rule handleGenerate_try_nonempty)
next
  assume e: "gn t = Inr []"
  show "notes (handleGenerate gn gi t s) = None"
    using e by (simp add: handleGenerate_notes handleGenerate_empty)
  show "error (handleGenerate gn gi t s) =
          Some (lit ''Could not generate notes for this topic. Please try a different one.'')"
    using e by (simp add: handleGenerate_error handleGenerate_empty could_not_nonempty)
qed

theorem generateNotes_returns_parsed_value_witness:
  "generateNotes (respond_with (lit ''[]'')) (map_of [(lit ''[]'', JArr [])])
       (lit ''Photosynthesis'') = Inr (JArr [])
   \<and> notes (handleGenerate
        (\<lambda>t. Inr [\<lparr>heading = lit ''Light'', content = lit ''Plants use light.'',
                     imagePrompt = lit ''a leaf'', imageUrl = None\<rparr>])
        (generateImage reject_images) (lit ''Photosynthesis'') (App_init :: json app))
      = Some [\<lparr>heading = lit ''Light'', content = lit ''Plants use light.'',
                imagePrompt = lit ''a leaf'', imageUrl = Some placeholder_url\<rparr>]
   \<and> [\<lparr>heading = lit ''Light'', content = lit ''Plants use light.'',
         imagePrompt = lit ''a leaf'', imageUrl = Some placeholder_url\<rparr>] \<noteq> []
   \<and> notes (handleGenerate (\<lambda>t. Inr []) (generateImage reject_images)
        (lit ''Photosynthesis'') (App_init :: json app)) = None
   \<and> error (handleGenerate (\<lambda>t. Inr []) (generateImage reject_images)
        (lit ''Photosynthesis'') (App_init :: json app))
      = Some (lit ''Could not generate notes for this topic. Please try a different one.'')"
proof -
  have req: "respond_with (lit ''[]'')
        (ContentRequest (lit ''gemini-2.5-flash'') (notes_prompt (lit ''Photosynthesis''))
           (lit ''application/json'') notesSchema) = Inr (Some (lit ''[]''))"
    by (simp add: respond_with_def)
  have stored: "notes (handleGenerate
        (\<lambda>t. Inr [\<lparr>heading = lit ''Light'', content = lit ''Plants use light.'',
                     imagePrompt = lit ''a leaf'', imageUrl = None\<rparr>])
        (generateImage reject_images) (lit ''Photosynthesis'') (App_init :: json app))
      = Some [\<lparr>heading = lit ''Light'', content = lit ''Plants use light.'',
                imagePrompt = lit ''a leaf'', imageUrl = Some placeholder_url\<rparr>]"
    by (simp add: handleGenerate_notes handleGenerate_try_def generateImage_def
          generateImage_try_def reject_images_def)
  note T = generateNotes_returns_parsed_value
  have a: "generateNotes (respond_with (lit ''[]'')) (map_of [(lit ''[]'', JArr [])])
       (lit ''Photosynthesis'') = Inr (JArr [])"
  proof (rule T [THEN conjunct1, THEN iffD2])
    show "\<exists>txt. respond_with (lit ''[]'')
        (ContentRequest (lit ''gemini-2.5-flash'') (notes_prompt (lit ''Photosynthesis''))
           (lit ''application/json'') notesSchema) = Inr (Some txt)
       \<and> map_of [(lit ''[]'', JArr [])] (trim txt) = Some (JArr [])"
      using req by (intro exI [of _ "lit ''[]''"]) (simp add: trim_brackets)
  qed
  have b: "[\<lparr>heading = lit ''Light'', content = lit ''Plants use light.'',
         imagePrompt = lit ''a leaf'', imageUrl = Some placeholder_url\<rparr>] \<noteq> []"
    using stored by (rule T [THEN conjunct2, THEN conjunct1, rule_format])
  have e: "(\<lambda>t::jsstring. Inr [] :: js_error + LearningNotes) (lit ''Photosynthesis'') = Inr []"
    by simp
  have c: "notes (handleGenerate (\<lambda>t. Inr []) (generateImage reject_images)
        (lit ''Photosynthesis'') (App_init :: json app)) = None
   \<and> error (handleGenerate (\<lambda>t. Inr []) (generateImage reject_images)
        (lit ''Photosynthesis'') (App_init :: json app))
      = Some (lit ''Could not generate notes for this topic. Please try a different one.'')"
    using e by (rule T [THEN conjunct2, THEN conjunct2, rule_format])
  from a stored b c show ?thesis by blast
qed

subsection \<open>generateQuiz: what a returned quiz is known to be\<close>

lemma trim_one_question:
  \<open>trim (lit ''[{"question":"Q"}]'') = lit ''[{"question":"Q"}]''\<close>
  by (simp add: trim_def lit_def is_whitespace_def)

lemma lit_Q_nonempty: "lit ''Q'' \<noteq> []"
  by (simp add: lit_def)

text \<open>
  Claim C3 says that a quiz returned by \<open>generateQuiz\<close> has exactly 10 questions. It fails:
  a response holding a single question passes the check of line 124 and is returned, a quiz
  of length 1.
\<close>

theorem generateQuiz_one_question_counterexample:
  \<open>generateQuiz (respond_with (lit ''[{"question":"Q"}]''))
       (map_of [(lit ''[{"question":"Q"}]'', JArr [JObj [(lit ''question'', JStr (lit ''Q''))]])])
       (lit ''Photosynthesis'') sample_notes
     = Inr (JArr [JObj [(lit ''question'', JStr (lit ''Q''))]])
   \<and> length [JObj [(lit ''question'', JStr (lit ''Q''))]] \<noteq> 10\<close>
  by (simp add: generateQuiz_def generateQuiz_try_def respond_with_def quiz_rejected_def
        trim_one_question lit_Q_nonempty)

text \<open>
  Claim C3, as amended. \<open>generateQuiz\<close> returns exactly when the remote call delivers a text
  that \<open>JSON.parse\<close> accepts once trimmed and the parsed value is a non-empty array whose
  first element is an object with a truthy \<open>question\<close>; the value returned is that array,
  whatever its length. The number 10 stands in the prompt only.
\<close>

theorem generateQuiz_returns_validated_array:
  "generateQuiz gc parse t ns = Inr v \<longleftrightarrow>
     (\<exists>txt first rest kvs q.
        gc (ContentRequest (lit ''gemini-2.5-flash'') (quiz_prompt t ns)
              (lit ''application/json'') quizSchema) = Inr (Some txt) \<and>
        parse (trim txt) = Some v \<and> v = JArr (first # rest) \<and> first = JObj kvs \<and>
        map_of kvs (lit ''question'') = Some q \<and> truthy (Some q))"
proof
  assume "generateQuiz gc parse t ns = Inr v"
  then obtain rt first rest q where
    g: "gc (ContentRequest (lit ''gemini-2.5-flash'') (quiz_prompt t ns)
              (lit ''application/json'') quizSchema) = Inr (Some rt)"
    and p: "parse (trim rt) = Some v" and v: "v = JArr (first # rest)"
    and r: "read_question first = Inr q" and tq: "truthy q"
    unfolding generateQuiz_Inr_iff by blast
  from read_question_truthy [OF r tq] obtain kvs w where
    "first = JObj kvs" "map_of kvs (lit ''question'') = Some w" "q = Some w" by blast
  with g p v tq show "\<exists>txt first rest kvs q.
        gc (ContentRequest (lit ''gemini-2.5-flash'') (quiz_prompt t ns)
              (lit ''application/json'') quizSchema) = Inr (Some txt) \<and>
        parse (trim txt) = Some v \<and> v = JArr (first # rest) \<and> first = JObj kvs \<and>
        map_of kvs (lit ''question'') = Some q \<and> truthy (Some q)"
    by blast
next
  assume "\<exists>txt first rest kvs q.
        gc (ContentRequest (lit ''gemini-2.5-flash'') (quiz_prompt t ns)
              (lit ''application/json'') quizSchema) = Inr (Some txt) \<and>
        parse (trim txt) = Some v \<and> v = JArr (first # rest) \<and> first = JObj kvs \<and>
        map_of kvs (lit ''question'') = Some q \<and> truthy (Some q)"
  then obtain rt first rest kvs q where
    g: "gc (ContentRequest (lit ''gemini-2.5-flash'') (quiz_prompt t ns)
              (lit ''application/json'') quizSchema) = Inr (Some rt)"
    and p: "parse (trim rt) = Some v" and v: "v = JArr (first # rest)"
    and f: "first = JObj kvs" and m: "map_of kvs (lit ''question'') = Some q"
    and tq: "truthy (Some q)" by blast
  from f m have "read_question first = Inr (Some q)" by simp
  with g p v tq show "generateQuiz gc parse t ns = Inr v"
    unfolding generateQuiz_Inr_iff by blast
qed

theorem generateQuiz_returns_validated_array_witness:
  \<open>generateQuiz (respond_with (lit ''[{"question":"Q"}]''))
       (map_of [(lit ''[{"question":"Q"}]'', JArr [JObj [(lit ''question'', JStr (lit ''Q''))]])])
       (lit ''Photosynthesis'') sample_notes
     = Inr (JArr [JObj [(lit ''question'', JStr (lit ''Q''))]])\<close>
proof (rule generateQuiz_returns_validated_array [THEN iffD2])
  show \<open>\<exists>txt first rest kvs q.
        respond_with (lit ''[{"question":"Q"}]'')
          (ContentRequest (lit ''gemini-2.5-flash'') (quiz_prompt (lit ''Photosynthesis'') sample_notes)
              (lit ''application/json'') quizSchema) = Inr (Some txt) \<and>
        map_of [(lit ''[{"question":"Q"}]'', JArr [JObj [(lit ''question'', JStr (lit ''Q''))]])]
          (trim txt) = Some (JArr [JObj [(lit ''question'', JStr (lit ''Q''))]]) \<and>
        JArr [JObj [(lit ''question'', JStr (lit ''Q''))]] = JArr (first # rest) \<and>
        first = JObj kvs \<and>
        map_of kvs (lit ''question'') = Some q \<and> truthy (Some q)\<close>
    by (intro exI [of _ \<open>lit ''[{"question":"Q"}]''\<close>]
          exI [of _ "JObj [(lit ''question'', JStr (lit ''Q''))]"] exI [of _ "[]"]
          exI [of _ "[(lit ''question'', JStr (lit ''Q''))]"] exI [of _ "JStr (lit ''Q'')"])
       (simp add: respond_with_def trim_one_question lit_Q_nonempty)
qed

subsection \<open>generateImage\<close>

lemma generateImage_try_prefix:
  "generateImage_try svc p = Inr u \<Longrightarrow> prefix data_uri_prefix u"
  by (auto simp: generateImage_try_def split: sum.splits option.splits list.splits)

text \<open>
  Claim C4. \<open>generateImage\<close> never raises: for every image service and every prompt it
  returns a string. When anything in its \<open>try\<close> block fails (the remote call rejects, or the
  response holds no image) the string is the placeholder URL
  \<open>https://picsum.photos/1280/720\<close>; when the block succeeds the string starts with
  \<open>data:image/jpeg;base64,\<close>, and for a response that carries image bytes it is that prefix
  followed by the bytes.
\<close>

theorem generateImage_never_raises:
  "(\<exists>url. generateImage svc p = Inr url \<and> (url = placeholder_url \<or> prefix data_uri_prefix url))
   \<and> (\<forall>e. generateImage_try svc p = Inl e \<longrightarrow> generateImage svc p = Inr placeholder_url)
   \<and> (\<forall>u. generateImage_try svc p = Inr u \<longrightarrow>
          generateImage svc p = Inr u \<and> prefix data_uri_prefix u)
   \<and> (\<forall>e. svc (ImagesRequest (lit ''imagen-3.0-generate-002'')
              (lit ''Educational illustration, clean, minimalist vector style, vibrant colors. '' @ p)
              1 (lit ''image/jpeg'') (lit ''16:9'')) = Inl e \<longrightarrow>
          generateImage svc p = Inr placeholder_url)
   \<and> (\<forall>g gs bytes. svc (ImagesRequest (lit ''imagen-3.0-generate-002'')
              (lit ''Educational illustration, clean, minimalist vector style, vibrant colors. '' @ p)
              1 (lit ''image/jpeg'') (lit ''16:9''))
            = Inr (ImagesResponse (Some (GeneratedImage (Some (Image (Some bytes))) # gs))) \<longrightarrow>
          generateImage svc p = Inr (data_uri_prefix @ bytes))"
proof (intro conjI allI impI)
  show "\<exists>url. generateImage svc p = Inr url \<and> (url = placeholder_url \<or> prefix data_uri_prefix url)"
    by (cases "generateImage_try svc p")
       (auto simp: generateImage_def dest: generateImage_try_prefix)
next
  fix e assume "generateImage_try svc p = Inl e"
  then show "generateImage svc p = Inr placeholder_url" by (simp add: generateImage_def)
next
  fix u assume "generateImage_try svc p = Inr u"
  then show "generateImage svc p = Inr u" by (simp add: generateImage_def)
next
  fix u assume "generateImage_try svc p = Inr u"
  then show "prefix data_uri_prefix u" by (rule generateImage_try_prefix)
next
  fix e assume "svc (ImagesRequest (lit ''imagen-3.0-generate-002'')
              (lit ''Educational illustration, clean, minimalist vector style, vibrant colors. '' @ p)
              1 (lit ''image/jpeg'') (lit ''16:9'')) = Inl e"
  then show "generateImage svc p = Inr placeholder_url"
    by (simp add: generateImage_def generateImage_try_def)
next
  fix g gs bytes
  assume "svc (ImagesRequest (lit ''imagen-3.0-generate-002'')
              (lit ''Educational illustration, clean, minimalist vector style, vibrant colors. '' @ p)
              1 (lit ''image/jpeg'') (lit ''16:9''))
            = Inr (ImagesResponse (Some (GeneratedImage (Some (Image (Some bytes))) # gs)))"
  then show "generateImage svc p = Inr (data_uri_prefix @ bytes)"
    by (simp add: generateImage_def generateImage_try_def)
qed

theorem generateImage_never_raises_witness:
  "generateImage reject_images (lit ''a leaf'') = Inr placeholder_url
   \<and> generateImage (respond_images (lit ''QUJD'')) (lit ''a leaf'')
       = Inr (data_uri_prefix @ lit ''QUJD'')
   \<and> prefix data_uri_prefix (data_uri_prefix @ lit ''QUJD'')"
proof -
  note T = generateImage_never_raises
  have f: "generateImage_try reject_images (lit ''a leaf'') = Inl Rejected"
    by (simp add: generateImage_try_def reject_images_def)
  have a: "generateImage reject_images (lit ''a leaf'') = Inr placeholder_url"
    using f by (rule T [THEN conjunct2, THEN conjunct1, rule_format])
  have g: "generateImage_try (respond_images (lit ''QUJD'')) (lit ''a leaf'')
             = Inr (data_uri_prefix @ lit ''QUJD'')"
    by (simp add: generateImage_try_def respond_images_def)
  have b: "generateImage (respond_images (lit ''QUJD'')) (lit ''a leaf'')
             = Inr (data_uri_prefix @ lit ''QUJD'')
           \<and> prefix data_uri_prefix (data_uri_prefix @ lit ''QUJD'')"
    using g by (rule T [THEN conjunct2, THEN conjunct2, THEN conjunct1, rule_format])
  from a b show ?thesis by blast
qed

section \<open>The quiz view: score, feedback and navigation\<close>

lemma reduce_score_filter:
  "reduce_score recorded k n qz =
     n + length (filter (\<lambda>i. recorded (k + int i) = Some (correctAnswer (qz ! i))) [0..<length qz])"
proof (induction qz arbitrary: k n)
  case Nil
  show ?case by simp
next
  case (Cons q rest)
  have split: "[0..<length (q # rest)] = 0 # map Suc [0..<length rest]"
    by (simp add: upt_conv_Cons map_Suc_upt del: upt_Suc)
  have shift: "\<And>i. k + 1 + int i = k + int (Suc i)" by simp
  show ?case
    unfolding split
    by (simp add: Cons.IH filter_map comp_def shift del: upt_Suc of_nat_Suc)
qed

lemma score_filter:
  "score qz recorded =
     length (filter (\<lambda>i. recorded (int i) = Some (correctAnswer (qz ! i))) [0..<length qz])"
  by (simp add: score_def reduce_score_filter)

lemma score_card:
  "score qz recorded =
     card {i. i < length qz \<and> recorded (int i) = Some (correctAnswer (qz ! i))}"
proof -
  have "{i. i < length qz \<and> recorded (int i) = Some (correctAnswer (qz ! i))}
        = set (filter (\<lambda>i. recorded (int i) = Some (correctAnswer (qz ! i))) [0..<length qz])"
    by auto
  moreover have "distinct (filter (\<lambda>i. recorded (int i) = Some (correctAnswer (qz ! i)))
                    [0..<length qz])"
    by simp
  ultimately show ?thesis
    by (simp only: score_filter distinct_card)
qed

lemma lit_A_B_C: "lit ''A'' \<noteq> lit ''C''" "lit ''C'' \<noteq> lit ''B''"
  by (simp_all add: lit_def)

text \<open>
  Claim C6. For every quiz and answer map the score is the number of question indices at
  which the recorded answer is the question's \<open>correctAnswer\<close>; an index with no recorded
  answer is not counted, so with no answers at all the score is 0. For the quiz of two
  questions with correct answers \<open>A\<close> and \<open>B\<close> and the answers \<open>{0: A, 1: C}\<close> the score is 1.
\<close>

theorem score_counts_correct_answers:
  "score qz recorded =
     card {i. i < length qz \<and> recorded (int i) = Some (correctAnswer (qz ! i))}
   \<and> score qz Map.empty = 0
   \<and> score [\<lparr>question = q0, options = o0, correctAnswer = lit ''A'', explanation = e0\<rparr>,
             \<lparr>question = q1, options = o1, correctAnswer = lit ''B'', explanation = e1\<rparr>]
        [0 \<mapsto> lit ''A'', 1 \<mapsto> lit ''C''] = 1"
proof (intro conjI)
  show "score qz recorded =
     card {i. i < length qz \<and> recorded (int i) = Some (correctAnswer (qz ! i))}"
    by (rule score_card)
  show "score qz Map.empty = 0" by (simp add: score_filter)
  show "score [\<lparr>question = q0, options = o0, correctAnswer = lit ''A'', explanation = e0\<rparr>,
             \<lparr>question = q1, options = o1, correctAnswer = lit ''B'', explanation = e1\<rparr>]
        [0 \<mapsto> lit ''A'', 1 \<mapsto> lit ''C''] = 1"
    by (simp add: score_def lit_A_B_C)
qed

lemma feedback_messages_distinct:
  "distinct [lit ''Excellent work!'', lit ''Good job!'', lit ''Great effort!'']"
  by (simp add: lit_def)

text \<open>
  Claim C5. For every quiz and answer map the results view gives the feedback of the rounded
  score percentage, and that feedback falls in exactly one of three tiers: a percentage
  above 80 gives "Excellent work!", one above 50 and at most 80 gives "Good job!", one of at
  most 50 gives "Great effort!". The three conditions exclude each other and the three
  messages differ. In particular 81 gives "Excellent work!", 60 gives "Good job!" and 40
  gives "Great effort!".
\<close>

theorem results_feedback_tiers:
  "results_feedback round_percent qz recorded
     = feedback_of (round_percent (score qz recorded) (length qz))
   \<and> (80 < p \<longrightarrow> message (feedback_of (Percent p)) = lit ''Excellent work!'')
   \<and> (50 < p \<and> p \<le> 80 \<longrightarrow> message (feedback_of (Percent p)) = lit ''Good job!'')
   \<and> (p \<le> 50 \<longrightarrow> message (feedback_of (Percent p)) = lit ''Great effort!'')
   \<and> distinct [lit ''Excellent work!'', lit ''Good job!'', lit ''Great effort!'']
   \<and> message (feedback_of (Percent 81)) = lit ''Excellent work!''
   \<and> message (feedback_of (Percent 60)) = lit ''Good job!''
   \<and> message (feedback_of (Percent 40)) = lit ''Great effort!''"
  using feedback_messages_distinct
  by (simp add: results_feedback_def feedback_of_def)

theorem results_feedback_tiers_witness:
  "message (results_feedback (\<lambda>sc n. Percent 81) [] Map.empty) = lit ''Excellent work!''
   \<and> message (results_feedback (\<lambda>sc n. Percent 60) [] Map.empty) = lit ''Good job!''
   \<and> message (results_feedback (\<lambda>sc n. Percent 40) [] Map.empty) = lit ''Great effort!''"
proof -
  note T = results_feedback_tiers
  have a: "message (feedback_of (Percent 81)) = lit ''Excellent work!''"
    by (rule T [THEN conjunct2, THEN conjunct1, rule_format]) simp
  have b: "message (feedback_of (Percent 60)) = lit ''Good job!''"
    by (rule T [THEN conjunct2, THEN conjunct2, THEN conjunct1, rule_format]) simp
  have c: "message (feedback_of (Percent 40)) = lit ''Great effort!''"
    by (rule T [THEN conjunct2, THEN conjunct2, THEN conjunct2, THEN conjunct1, rule_format]) simp
  from a b c show ?thesis
    by (simp add: T [THEN conjunct1])
qed

lemma quiz_step_index:
  assumes "qz \<noteq> []"
    and "0 \<le> currentQuestionIndex s \<and> currentQuestionIndex s \<le> totalQuestions qz - 1"
  shows "0 \<le> currentQuestionIndex (quiz_step qz s ev)
         \<and> currentQuestionIndex (quiz_step qz s ev) \<le> totalQuestions qz - 1"
  using assms
  by (cases ev)
     (auto simp: handleAnswerSelect_def handleNext_def handlePrev_def
        QuizDisplay_handleSubmit_def handleRetake_def totalQuestions_def)

lemma quiz_foldl_index:
  assumes "qz \<noteq> []"
    and "0 \<le> currentQuestionIndex s \<and> currentQuestionIndex s \<le> totalQuestions qz - 1"
  shows "0 \<le> currentQuestionIndex (foldl (quiz_step qz) s evs)
         \<and> currentQuestionIndex (foldl (quiz_step qz) s evs) \<le> totalQuestions qz - 1"
  using assms(2)
proof (induction evs arbitrary: s)
  case Nil
  then show ?case by simp
next
  case (Cons ev evs)
  from quiz_step_index [OF assms(1) Cons.prems]
  have "0 \<le> currentQuestionIndex (quiz_step qz s ev)
         \<and> currentQuestionIndex (quiz_step qz s ev) \<le> totalQuestions qz - 1" .
  from Cons.IH [OF this] show ?case by simp
qed

text \<open>
  Claim C7. For every non-empty quiz of length \<open>L\<close>, after any sequence of handler calls
  from the initial state (next and previous among them) the question index lies in
  \<open>[0, L - 1]\<close>; \<open>handleNext\<close> at index \<open>L - 1\<close> and \<open>handlePrev\<close> at index 0 leave the state
  unchanged.
\<close>

theorem quiz_index_stays_in_range:
  assumes "qz \<noteq> []"
  shows "0 \<le> currentQuestionIndex (quiz_run qz events)
         \<and> currentQuestionIndex (quiz_run qz events) \<le> int (length qz) - 1
         \<and> (\<forall>s. currentQuestionIndex s = int (length qz) - 1 \<longrightarrow> handleNext qz s = s)
         \<and> (\<forall>s. currentQuestionIndex s = 0 \<longrightarrow> handlePrev s = s)"
proof -
  from assms have init: "0 \<le> currentQuestionIndex quiz_display_init
      \<and> currentQuestionIndex quiz_display_init \<le> totalQuestions qz - 1"
    by (cases qz) (simp_all add: quiz_display_init_def totalQuestions_def)
  from quiz_foldl_index [OF assms init, of events]
  have "0 \<le> currentQuestionIndex (quiz_run qz events)
         \<and> currentQuestionIndex (quiz_run qz events) \<le> int (length qz) - 1"
    by (simp add: quiz_run_def totalQuestions_def)
  moreover have "\<forall>s. currentQuestionIndex s = int (length qz) - 1 \<longrightarrow> handleNext qz s = s"
    by (simp add: handleNext_def totalQuestions_def)
  moreover have "\<forall>s. currentQuestionIndex s = 0 \<longrightarrow> handlePrev s = s"
    by (simp add: handlePrev_def)
  ultimately show ?thesis by blast
qed

theorem quiz_index_stays_in_range_witness:
  "sample_quiz \<noteq> []
   \<and> 0 \<le> currentQuestionIndex (quiz_run sample_quiz [Next, Next, Next, Prev])
   \<and> currentQuestionIndex (quiz_run sample_quiz [Next, Next, Next, Prev])
       \<le> int (length sample_quiz) - 1
   \<and> currentQuestionIndex (quiz_run sample_quiz [Next, Next, Next]) = 1
   \<and> handleNext sample_quiz (quiz_run sample_quiz [Next]) = quiz_run sample_quiz [Next]
   \<and> handlePrev (quiz_run sample_quiz []) = quiz_run sample_quiz []"
proof -
  have ne: "sample_quiz \<noteq> []" by (simp add: sample_quiz_def)
  note T = quiz_index_stays_in_range [OF ne]
  have i1: "currentQuestionIndex (quiz_run sample_quiz [Next]) = int (length sample_quiz) - 1"
    by (simp add: quiz_run_def quiz_display_init_def handleNext_def totalQuestions_def
          sample_quiz_def)
  have i0: "currentQuestionIndex (quiz_run sample_quiz []) = 0"
    by (simp add: quiz_run_def quiz_display_init_def)
  have i3: "currentQuestionIndex (quiz_run sample_quiz [Next, Next, Next]) = 1"
    by (simp add: quiz_run_def quiz_display_init_def handleNext_def totalQuestions_def
          sample_quiz_def)
  from T [of "[Next, Next, Next, Prev]"]
  have r: "0 \<le> currentQuestionIndex (quiz_run sample_quiz [Next, Next, Next, Prev])
      \<and> currentQuestionIndex (quiz_run sample_quiz [Next, Next, Next, Prev])
       \<le> int (length sample_quiz) - 1" by blast
  from T [of "[]"] i1
  have n: "handleNext sample_quiz (quiz_run sample_quiz [Next]) = quiz_run sample_quiz [Next]"
    by blast
  from T [of "[]"] i0
  have p: "handlePrev (quiz_run sample_quiz []) = quiz_run sample_quiz []"
    by blast
  from ne r i3 n p show ?thesis by blast
qed

section \<open>The narration queue\<close>

lemma speech_queue_append:
  "speech_queue q (cs @ ds) = speech_queue (speech_queue q cs) ds"
proof (induction cs arbitrary: q)
  case Nil
  show ?case by simp
next
  case (Cons c cs)
  then show ?case by (cases c) simp_all
qed

lemma speech_queue_speak: "speech_queue q (map Speak us) = q @ us"
  by (induction us arbitrary: q) simp_all

lemma speech_queue_cancel_speak:
  "speech_queue q (cs @ Cancel # map Speak us) = us"
  by (simp add: speech_queue_append speech_queue_speak)

lemma length_build_utterances: "length (build_utterances v ns) = length ns"
  by (simp add: build_utterances_def)

lemma nth_build_utterances:
  "i < length ns \<Longrightarrow> build_utterances v ns ! i = make_utterance v i (ns ! i)"
  by (simp add: build_utterances_def nth_enumerate_eq)

lemma notes_effect_state:
  "playbackState (notes_effect busy ns s) = stopped
   \<and> utterancesRef (notes_effect busy ns s) = build_utterances (selectedVoice s) ns
   \<and> speakingSectionIndex (notes_effect busy ns s) = None"
  by (simp add: notes_effect_def)

lemma handleGenerate_never_stores_empty:
  "notes (handleGenerate gn gi t s) \<noteq> Some []"
  using handleGenerate_try_nonempty [of gn gi t "[]"]
  by (auto simp: handleGenerate_notes split: sum.splits)

text \<open>
  Claim C8. For every note set of \<open>N\<close> sections for which the play control exists (it is
  rendered for \<open>N \<ge> 1\<close> only, and \<open>handleGenerate_never_stores_empty\<close> shows that
  \<open>handleGenerate\<close> never stores an empty note set), in the stopped state with the utterances
  the effect built from the notes, \<open>handlePlay\<close> first calls \<open>cancel\<close> and then \<open>speak\<close>
  once per section, in document order, and sets the state to \<open>playing\<close>: whatever was
  queued before, the queue then holds exactly the \<open>N\<close> utterances. Utterance \<open>i\<close> carries the
  heading of section \<open>i\<close>, then a full stop and a space, then its content. By
  \<open>notes_effect_state\<close> the state the effect leaves for the notes \<open>ns\<close> is such a state.
\<close>

theorem handlePlay_from_stopped:
  assumes "play_control_rendered ns"
    and "playbackState s = stopped"
    and "utterancesRef s = build_utterances v ns"
  shows "speech_calls (handlePlay s)
           = speech_calls s @ Cancel # map Speak (build_utterances v ns)
         \<and> speech_queue q (speech_calls (handlePlay s)) = build_utterances v ns
         \<and> length (build_utterances v ns) = length ns
         \<and> (\<forall>i. i < length ns \<longrightarrow>
               utext (build_utterances v ns ! i)
                 = heading (ns ! i) @ lit ''. '' @ content (ns ! i)
               \<and> section_index (build_utterances v ns ! i) = i)
         \<and> playbackState (handlePlay s) = playing"
proof (intro conjI allI impI)
  from assms(1) have "length (build_utterances v ns) > 0"
    by (simp add: play_control_rendered_def length_build_utterances)
  with assms(3) have u: "utterancesRef s \<noteq> []" by auto
  from u assms(2,3) show c: "speech_calls (handlePlay s)
             = speech_calls s @ Cancel # map Speak (build_utterances v ns)"
    by (simp add: handlePlay_def)
  show "speech_queue q (speech_calls (handlePlay s)) = build_utterances v ns"
    unfolding c by (rule speech_queue_cancel_speak)
  from u assms(2,3) show "playbackState (handlePlay s) = playing"
    by (simp add: handlePlay_def)
next
  show "length (build_utterances v ns) = length ns" by (rule length_build_utterances)
next
  fix i assume "i < length ns"
  then show "utext (build_utterances v ns ! i) = heading (ns ! i) @ lit ''. '' @ content (ns ! i)"
    by (simp add: nth_build_utterances make_utterance_def)
next
  fix i assume "i < length ns"
  then show "section_index (build_utterances v ns ! i) = i"
    by (simp add: nth_build_utterances make_utterance_def)
qed

theorem handlePlay_from_stopped_witness:
  "play_control_rendered sample_notes
   \<and> playbackState (notes_effect True sample_notes (NotesDisplay_init :: unit notes_display))
       = stopped
   \<and> speech_calls (handlePlay (notes_effect True sample_notes
        (NotesDisplay_init :: unit notes_display)))
       = [Cancel, Cancel,
          Speak \<lparr>utext = lit ''Light. Plants use light.'', voice = None, pitch = 1, rate = 1,
                 section_index = 0\<rparr>,
          Speak \<lparr>utext = lit ''Water. Roots take up water.'', voice = None, pitch = 1, rate = 1,
                 section_index = 1\<rparr>]
   \<and> playbackState (handlePlay (notes_effect True sample_notes
        (NotesDisplay_init :: unit notes_display))) = playing"
proof -
  let ?s = "notes_effect True sample_notes (NotesDisplay_init :: unit notes_display)"
  have st: "playbackState ?s = stopped"
    and ut: "utterancesRef ?s = build_utterances None sample_notes"
    by (simp_all add: notes_effect_def NotesDisplay_init_def)
  have ne: "play_control_rendered sample_notes"
    by (simp add: play_control_rendered_def sample_notes_def)
  have calls: "speech_calls ?s = [Cancel]"
    by (simp add: notes_effect_def NotesDisplay_init_def)
  have us: "build_utterances (None :: unit option) sample_notes
      = [\<lparr>utext = lit ''Light. Plants use light.'', voice = None, pitch = 1, rate = 1,
           section_index = 0\<rparr>,
         \<lparr>utext = lit ''Water. Roots take up water.'', voice = None, pitch = 1, rate = 1,
           section_index = 1\<rparr>]"
    by (simp add: build_utterances_def sample_notes_def make_utterance_def enumerate_eq_zip
          lit_def upt_rec)
  note T = handlePlay_from_stopped [OF ne st ut, of "[]"]
  have a: "speech_calls (handlePlay ?s)
             = speech_calls ?s @ Cancel # map Speak (build_utterances None sample_notes)"
    by (rule T [THEN conjunct1])
  have b: "playbackState (handlePlay ?s) = playing"
    by (rule T [THEN conjunct2, THEN conjunct2, THEN conjunct2, THEN conjunct2])
  from ne st a b show ?thesis by (simp add: calls us)
qed

section \<open>The application shell: a failed quiz start\<close>

lemma message_or_nonempty: "d \<noteq> [] \<Longrightarrow> message_or e d \<noteq> []"
  by (cases e) simp

lemma could_not_quiz_nonempty: "lit ''Could not generate the quiz.'' \<noteq> []"
  by (simp add: lit_def)

lemma handleStartQuiz_settle_failure:
  "handleStartQuiz_settle (Inl e) s
     = s\<lparr>quizError := Some (message_or e (lit ''Could not generate the quiz.'')),
         quizState := idle\<rparr>"
  by (simp add: handleStartQuiz_settle_def)

text \<open>
  Claim C9. Whenever the start-quiz action fails, that is, notes are present and
  \<open>generateQuiz\<close> raises, the quiz state is \<open>idle\<close> again and a non-empty quiz error is
  recorded (the message of the error, or "Could not generate the quiz." when it has none),
  while the notes, the topic and the notes-level error are what they were; the stored quiz
  and the loading flag are untouched as well. The same holds for the step that handles the
  failure alone, on whatever state the application is in when the call settles.
\<close>

theorem handleStartQuiz_failure_keeps_notes:
  assumes "notes s = Some ns"
    and "generate_quiz (topic s) ns = Inl e"
  shows "quizState (handleStartQuiz generate_quiz s) = idle
         \<and> quizError (handleStartQuiz generate_quiz s)
             = Some (message_or e (lit ''Could not generate the quiz.''))
         \<and> message_or e (lit ''Could not generate the quiz.'') \<noteq> []
         \<and> notes (handleStartQuiz generate_quiz s) = notes s
         \<and> topic (handleStartQuiz generate_quiz s) = topic s
         \<and> error (handleStartQuiz generate_quiz s) = error s
         \<and> quiz (handleStartQuiz generate_quiz s) = quiz s
         \<and> isLoading (handleStartQuiz generate_quiz s) = isLoading s
         \<and> quizState (handleStartQuiz_settle (Inl e) s1) = idle
         \<and> quizError (handleStartQuiz_settle (Inl e) s1)
             = Some (message_or e (lit ''Could not generate the quiz.''))
         \<and> notes (handleStartQuiz_settle (Inl e) s1) = notes s1
         \<and> topic (handleStartQuiz_settle (Inl e) s1) = topic s1
         \<and> error (handleStartQuiz_settle (Inl e) s1) = error s1"
  using assms
  by (simp add: handleStartQuiz_def handleStartQuiz_settle_failure handleStartQuiz_begin_def
        message_or_nonempty could_not_quiz_nonempty)

theorem handleStartQuiz_failure_keeps_notes_witness:
  "notes ((App_init :: json app)\<lparr>notes := Some sample_notes, topic := lit ''Photosynthesis''\<rparr>)
     = Some sample_notes
   \<and> generateQuiz (respond_with (lit ''[]'')) (map_of [(lit ''[]'', JArr [])])
        (lit ''Photosynthesis'') sample_notes = Inl (Error quiz_failed)
   \<and> quizState (handleStartQuiz
        (generateQuiz (respond_with (lit ''[]'')) (map_of [(lit ''[]'', JArr [])]))
        ((App_init :: json app)\<lparr>notes := Some sample_notes, topic := lit ''Photosynthesis''\<rparr>))
       = idle
   \<and> quizError (handleStartQuiz
        (generateQuiz (respond_with (lit ''[]'')) (map_of [(lit ''[]'', JArr [])]))
        ((App_init :: json app)\<lparr>notes := Some sample_notes, topic := lit ''Photosynthesis''\<rparr>))
       = Some quiz_failed
   \<and> notes (handleStartQuiz
        (generateQuiz (respond_with (lit ''[]'')) (map_of [(lit ''[]'', JArr [])]))
        ((App_init :: json app)\<lparr>notes := Some sample_notes, topic := lit ''Photosynthesis''\<rparr>))
       = Some sample_notes
   \<and> topic (handleStartQuiz
        (generateQuiz (respond_with (lit ''[]'')) (map_of [(lit ''[]'', JArr [])]))
        ((App_init :: json app)\<lparr>notes := Some sample_notes, topic := lit ''Photosynthesis''\<rparr>))
       = lit ''Photosynthesis''
   \<and> error (handleStartQuiz
        (generateQuiz (respond_with (lit ''[]'')) (map_of [(lit ''[]'', JArr [])]))
        ((App_init :: json app)\<lparr>notes := Some sample_notes, topic := lit ''Photosynthesis''\<rparr>))
       = None"
proof -
  let ?s = "(App_init :: json app)\<lparr>notes := Some sample_notes, topic := lit ''Photosynthesis''\<rparr>"
  let ?g = "generateQuiz (respond_with (lit ''[]'')) (map_of [(lit ''[]'', JArr [])])"
  have n: "notes ?s = Some sample_notes" by simp
  have t: "topic ?s = lit ''Photosynthesis''" by simp
  have e0: "error ?s = None" by (simp add: App_init_def)
  have f: "?g (lit ''Photosynthesis'') sample_notes = Inl (Error quiz_failed)"
    by (simp add: generateQuiz_def generateQuiz_try_def respond_with_def quiz_rejected_def
          trim_brackets)
  then have f': "?g (topic ?s) sample_notes = Inl (Error quiz_failed)" by (simp only: t)
  have m: "message_or (Error quiz_failed) (lit ''Could not generate the quiz.'') = quiz_failed"
    by (simp add: quiz_failed_def lit_def)
  note T = handleStartQuiz_failure_keeps_notes
      [of ?s sample_notes ?g "Error quiz_failed" ?s, OF n f']
  have "quizState (handleStartQuiz ?g ?s) = idle"
    by (rule T [THEN conjunct1])
  moreover have "quizError (handleStartQuiz ?g ?s) = Some quiz_failed"
    using T [THEN conjunct2, THEN conjunct1] by (simp only: m)
  moreover have "notes (handleStartQuiz ?g ?s) = Some sample_notes"
    using T [THEN conjunct2, THEN conjunct2, THEN conjunct2, THEN conjunct1]
    by (simp only: n)
  moreover have "topic (handleStartQuiz ?g ?s) = lit ''Photosynthesis''"
    using T [THEN conjunct2, THEN conjunct2, THEN conjunct2, THEN conjunct2, THEN conjunct1]
    by (simp only: t)
  moreover have "error (handleStartQuiz ?g ?s) = None"
    using T [THEN conjunct2, THEN conjunct2, THEN conjunct2, THEN conjunct2, THEN conjunct2,
             THEN conjunct1]
    by (simp only: e0)
  ultimately show ?thesis using n f by blast
qed

section \<open>The topic input\<close>

text \<open>
  Claim C10. The topic input only ever forwards a trimmed, non-empty topic: the argument of
  every call of \<open>onGenerate\<close> is the trimmed input and is not empty. In the mounted form,
  for an input whose trimmed form is empty (the empty or an all-whitespace input) submission
  calls nothing and changes nothing, and for every other input the callback receives the
  trimmed input (and the field is cleared). The trimmed input is the input without its
  leading and trailing whitespace: the input is whitespace, then the trimmed input, then
  whitespace, and a non-empty trimmed input neither starts nor ends with whitespace.
\<close>

theorem TopicInput_forwards_trimmed_topic:
  assumes "TopicInput_mounted s"
  shows "(\<forall>loading arg. fst (TopicInput_handleSubmit loading t) = Some arg \<longrightarrow>
            arg = trim t \<and> arg \<noteq> [])
   \<and> (trim t = [] \<longrightarrow> TopicInput_handleSubmit (isLoading s) t = (None, t))
   \<and> (trim t \<noteq> [] \<longrightarrow> TopicInput_handleSubmit (isLoading s) t = (Some (trim t), []))
   \<and> (trim t = [] \<longleftrightarrow> list_all is_whitespace t)
   \<and> (\<exists>a b. t = a @ trim t @ b \<and> list_all is_whitespace a \<and> list_all is_whitespace b)
   \<and> (trim t \<noteq> [] \<longrightarrow> \<not> is_whitespace (hd (trim t)) \<and> \<not> is_whitespace (last (trim t)))"
proof (intro conjI)
  from assms have nl: "\<not> isLoading s" by (simp add: TopicInput_mounted_def)
  show "\<forall>loading arg. fst (TopicInput_handleSubmit loading t) = Some arg \<longrightarrow>
            arg = trim t \<and> arg \<noteq> []"
    by (auto simp: TopicInput_handleSubmit_def split: if_splits)
  show "trim t = [] \<longrightarrow> TopicInput_handleSubmit (isLoading s) t = (None, t)"
    by (simp add: TopicInput_handleSubmit_def)
  from nl show "trim t \<noteq> [] \<longrightarrow> TopicInput_handleSubmit (isLoading s) t = (Some (trim t), [])"
    by (simp add: TopicInput_handleSubmit_def)
  show "trim t = [] \<longleftrightarrow> list_all is_whitespace t" by (rule trim_empty_iff)
  show "\<exists>a b. t = a @ trim t @ b \<and> list_all is_whitespace a \<and> list_all is_whitespace b"
    by (rule trim_decomposition)
  show "trim t \<noteq> [] \<longrightarrow> \<not> is_whitespace (hd (trim t)) \<and> \<not> is_whitespace (last (trim t))"
    using trim_ends by blast
qed

theorem TopicInput_forwards_trimmed_topic_witness:
  "TopicInput_mounted (App_init :: json app)
   \<and> TopicInput_handleSubmit (isLoading (App_init :: json app)) (lit ''  Roman Empire  '')
       = (Some (lit ''Roman Empire''), [])
   \<and> TopicInput_handleSubmit (isLoading (App_init :: json app)) (lit ''   '')
       = (None, lit ''   '')"
proof -
  have m: "TopicInput_mounted (App_init :: json app)"
    by (simp add: TopicInput_mounted_def App_init_def)
  note T = TopicInput_forwards_trimmed_topic [OF m]
  have tr: "trim (lit ''  Roman Empire  '') = lit ''Roman Empire''"
    by (simp add: trim_def lit_def is_whitespace_def)
  have re: "lit ''Roman Empire'' \<noteq> []" by (simp add: lit_def)
  have ne: "trim (lit ''  Roman Empire  '') \<noteq> []"
    unfolding tr by (rule re)
  have bl: "trim (lit ''   '') = []"
    by (simp add: trim_def lit_def is_whitespace_def)
  have a: "TopicInput_handleSubmit (isLoading (App_init :: json app)) (lit ''  Roman Empire  '')
             = (Some (lit ''Roman Empire''), [])"
    using T [of "lit ''  Roman Empire  ''", THEN conjunct2, THEN conjunct2, THEN conjunct1,
             rule_format, OF ne]
    by (simp only: tr)
  have b: "TopicInput_handleSubmit (isLoading (App_init :: json app)) (lit ''   '')
             = (None, lit ''   '')"
    using bl by (rule T [THEN conjunct2, THEN conjunct1, rule_format])
  from m a b show ?thesis by blast
qed

end
